theory Spec2Isabelle
  imports Complex_Main
begin

section \<open>JavaScript values used by \<open>src/index.js\<close>\<close>

subsection \<open>Strings\<close>

text \<open>
  A string is a list of code units below 256 (Latin-1). \<open>String.prototype.toLowerCase\<close>
  maps \<open>A\<close>..\<open>Z\<close> and the upper-case letters of the Latin-1 block (\<open>0xC0\<close>..\<open>0xDE\<close>
  without the multiplication sign \<open>0xD7\<close>) to the code unit 32 above, and leaves every
  other code unit alone.
\<close>

definition lower_char :: "char \<Rightarrow> char" where
  "lower_char c =
     (let n = (of_char c :: nat)
      in if (65 \<le> n \<and> n \<le> 90) \<or> (192 \<le> n \<and> n \<le> 222 \<and> n \<noteq> 215)
         then char_of (n + 32) else c)"

definition toLowerCase :: "string \<Rightarrow> string" where
  "toLowerCase s = map lower_char s"

text \<open>
  An argument or field that may be \<open>undefined\<close> is an \<open>option\<close>. A string is falsy when it is
  \<open>undefined\<close> or empty, which is what \<open>!x\<close> and \<open>x || d\<close> test.
\<close>

fun truthy :: "string option \<Rightarrow> bool" where
  "truthy None = False"
| "truthy (Some s) = (s \<noteq> [])"

subsection \<open>Numbers\<close>

text \<open>
  A number is an IEEE 754 binary64 value: a finite value is the rational it denotes (the two
  zeros are not told apart, no operation used here depends on the sign of zero).
\<close>

datatype number = NaN | PosInfinity | NegInfinity | Finite rat

text \<open>The relational operator \<open>a > b\<close> on numbers: false as soon as one side is \<open>NaN\<close>.\<close>

fun js_gt :: "number \<Rightarrow> number \<Rightarrow> bool" where
  "js_gt (Finite a) (Finite b) = (b < a)"
| "js_gt PosInfinity (Finite b) = True"
| "js_gt PosInfinity NegInfinity = True"
| "js_gt (Finite a) NegInfinity = True"
| "js_gt _ _ = False"

text \<open>\<open>ToNumber\<close> of a number that may be \<open>undefined\<close>: \<open>undefined\<close> converts to \<open>NaN\<close>.\<close>

fun toNumber :: "number option \<Rightarrow> number" where
  "toNumber None = NaN"
| "toNumber (Some n) = n"

text \<open>
  The result of an arithmetic operation is the exact result rounded to the nearest binary64
  value, ties to the even significand. \<open>bit_length n\<close> is the number of binary digits of
  \<open>n\<close>, \<open>ilog2 q\<close> the exponent \<open>e\<close> with \<open>2^e \<le> q < 2^(e+1)\<close> for a positive \<open>q\<close>.
  Exponents below \<open>-1022\<close> share the spacing of \<open>-1022\<close> (subnormal values), and a
  rounded magnitude whose exponent exceeds 1023 is an infinity.
\<close>

function bit_length :: "int \<Rightarrow> nat" where
  "bit_length n = (if n \<le> 0 then 0 else Suc (bit_length (n div 2)))"
  by pat_completeness auto
termination
  by (relation "measure nat") auto

declare bit_length.simps [simp del]

definition pow2 :: "int \<Rightarrow> rat" where
  "pow2 e = (if 0 \<le> e then 2 ^ nat e else 1 / 2 ^ nat (- e))"

definition ilog2 :: "rat \<Rightarrow> int" where
  "ilog2 q =
     (let (a, b) = quotient_of q;
          e = int (bit_length a) - int (bit_length b)
      in if pow2 e \<le> q then e else e - 1)"

definition round_half_even :: "rat \<Rightarrow> int" where
  "round_half_even q =
     (let f = \<lfloor>q\<rfloor>; d = q - of_int f
      in if d < 1 / 2 then f
         else if 1 / 2 < d then f + 1
         else if even f then f else f + 1)"

definition round64 :: "rat \<Rightarrow> number" where
  "round64 q =
     (if q = 0 then Finite 0
      else
        let e = max (ilog2 \<bar>q\<bar>) (- 1022);
            u = pow2 (e - 52);
            m = of_int (round_half_even (\<bar>q\<bar> / u)) * u
        in if 1024 \<le> ilog2 m then (if 0 < q then PosInfinity else NegInfinity)
           else Finite (sgn q * m))"

section \<open>Data model\<close>

text \<open>
  The arguments of the tag, typed as \<open>ResponseCookieTag.args\<close> declares them: the id of a
  Request model, the cookie name, the trigger behaviour (strings) and the maximum age (a
  number). \<open>None\<close> is \<open>undefined\<close>: an argument that was not supplied.
\<close>

record args =
  arg0 :: "string option"
  arg1 :: "string option"
  arg2 :: "string option"
  arg3 :: "number option"

record options =
  reqId :: "string option"
  cookieName :: "string option"
  triggerBehavior :: string
  maxAgeSeconds :: "number option"

record request =
  request_id :: string

record header =
  header_name :: string
  header_value :: string

text \<open>
  A response of the host's store: \<open>created\<close> is the millisecond timestamp the host took from
  \<open>Date.now()\<close> when it stored the response, \<open>error\<close> and \<open>statusCode\<close> may be absent.
\<close>

record response =
  created :: int
  error :: "string option"
  statusCode :: "int option"
  headers :: "header list"

record cookie =
  cookie_key :: string
  cookie_value :: string

section \<open>Option parsing and the resend decision\<close>

definition defaultTriggerBehaviour :: string where
  "defaultTriggerBehaviour = ''never''"

definition parseOptions :: "args \<Rightarrow> options" where
  "parseOptions a =
     \<lparr> reqId = arg0 a,
       cookieName = arg1 a,
       triggerBehavior =
         toLowerCase (case arg2 a of
                        None \<Rightarrow> defaultTriggerBehaviour
                      | Some s \<Rightarrow> if s = [] then defaultTriggerBehaviour else s),
       maxAgeSeconds = arg3 a \<rparr>"

text \<open>
  \<open>(Date.now() - response.created) / 1000\<close>, each operation rounded; dividing an infinity
  by 1000 leaves it as it is.
\<close>

definition ageSeconds :: "int \<Rightarrow> response \<Rightarrow> number" where
  "ageSeconds now r =
     (case round64 (of_int now - of_int (created r)) of
        Finite d \<Rightarrow> round64 (d / 1000)
      | n \<Rightarrow> n)"

text \<open>
  \<open>checkShouldResend(response, options)\<close>; the first argument here is the value of
  \<open>Date.now()\<close>. The \<open>switch\<close> compares the trigger behaviour with the four strings of
  \<open>TriggerBehavior\<close>; \<open>Never\<close> has no case of its own and falls to the final
  \<open>return false\<close>, as every other string does.
\<close>

definition checkShouldResend :: "int \<Rightarrow> response option \<Rightarrow> options \<Rightarrow> bool" where
  "checkShouldResend now resp opts =
     (if triggerBehavior opts = ''always'' then True
      else if triggerBehavior opts = ''no-history'' then resp = None
      else if triggerBehavior opts = ''when-expired'' then
        (case resp of
           None \<Rightarrow> True
         | Some r \<Rightarrow> js_gt (ageSeconds now r) (toNumber (maxAgeSeconds opts)))
      else False)"

section \<open>Errors, effects and the host\<close>

text \<open>
  What a rejected \<open>run\<close> carries: an \<open>Error\<close> built by \<open>new Error(message)\<close>, or one of the
  two errors the engine raises itself, a \<open>ReferenceError\<close> (with its message) for a name
  that is not declared and a \<open>TypeError\<close> for a property read on \<open>undefined\<close>.
\<close>

datatype js_error = Error string | ReferenceError string | TypeError

text \<open>
  Arrays are objects: a value of array type is an address, and the heap \<open>cells\<close> gives the
  elements of the array at each address. \<open>fresh\<close> is the next address of a new array.
  The trace records, in order, every line written by \<open>log\<close> and every call of
  \<open>context.network.sendRequest\<close>, with the request, the address of the array passed under
  \<open>requestChain\<close> and the elements that array had at the call.
\<close>

type_synonym addr = nat

datatype event = Log string | Send request addr "string list"

record heap =
  cells :: "addr \<Rightarrow> string list"
  fresh :: addr

record world =
  mem :: heap
  trace :: "event list"

text \<open>
  The \<open>context\<close> argument of \<open>run\<close>, as far as the code reads it. \<open>getExtraInfo\<close> returns
  the stored value itself, for \<open>requestChain\<close> the address of an array of request ids, or
  nothing. \<open>sendRequest\<close> is the host's transport: it gets the request and the extra
  information (names with array addresses), may change the heap, and returns a response or
  nothing. Every call of the host is taken to return: a promise that the host rejects or
  never settles is outside this model.
\<close>

record ctx =
  getById :: "string \<Rightarrow> request option"
  getEnvironmentId :: string
  getLatestForRequestId :: "string \<Rightarrow> string \<Rightarrow> response option"
  renderPurpose :: "string option"
  getExtraInfo :: "string \<Rightarrow> addr option"
  sendRequest :: "request \<Rightarrow> (string \<times> addr) list \<Rightarrow> heap \<Rightarrow> response option \<times> heap"

text \<open>
  What the module takes from outside the \<open>context\<close>: \<open>Cookie.parse\<close> of the
  \<open>tough-cookie\<close> package, which returns a cookie or nothing, and the clock \<open>Date.now()\<close>.
\<close>

record env =
  Cookie_parse :: "string \<Rightarrow> cookie option"
  Date_now :: int

definition logPrefix :: string where
  "logPrefix = ''[responseCookie tag]''"

definition log :: "string \<Rightarrow> world \<Rightarrow> world" where
  "log msg w = w\<lparr>trace := trace w @ [Log (logPrefix @ '' '' @ msg)]\<rparr>"

text \<open>The array literal \<open>[]\<close>: a new, empty array at the next address.\<close>

definition new_array :: "world \<Rightarrow> addr \<times> world" where
  "new_array w =
     (let a = fresh (mem w)
      in (a, w\<lparr>mem := (mem w)\<lparr>cells := (cells (mem w))(a := []), fresh := Suc a\<rparr>\<rparr>))"

text \<open>\<open>Array.prototype.push\<close> changes the array at the address it is called on.\<close>

definition push :: "addr \<Rightarrow> string \<Rightarrow> world \<Rightarrow> world" where
  "push a x w = w\<lparr>mem := (mem w)\<lparr>cells := (cells (mem w))(a := cells (mem w) a @ [x])\<rparr>\<rparr>"

section \<open>Resending the dependent request\<close>

definition resendRequest :: "ctx \<Rightarrow> request \<Rightarrow> world \<Rightarrow> response option \<times> world" where
  "resendRequest c request w =
     (let (requestChain, w1) =
            (case getExtraInfo c ''requestChain'' of
               Some a \<Rightarrow> (a, w)
             | None \<Rightarrow> new_array w)
      in if request_id request \<in> set (cells (mem w1) requestChain)
         then (None, log ''Preventing recursive render'' w1)
         else
           let w2 = log ''Resending dependency'' w1;
               w3 = push requestChain (request_id request) w2;
               w4 = w3\<lparr>trace := trace w3 @ [Send request requestChain (cells (mem w3) requestChain)]\<rparr>;
               (r, h) = sendRequest c request [(''requestChain'', requestChain)] (mem w4)
           in (r, w4\<lparr>mem := h\<rparr>))"

section \<open>Cookies of a response\<close>

definition getCookies :: "env \<Rightarrow> response \<Rightarrow> cookie option list" where
  "getCookies e r =
     map (\<lambda>h. Cookie_parse e (header_value h))
       (filter (\<lambda>h. toLowerCase (header_name h) = ''set-cookie'') (headers r))"

text \<open>
  \<open>cookies.filter((c) => c.key == name)\<close>: the callback reads \<open>c.key\<close> of every element
  in order, and that read raises a \<open>TypeError\<close> on an element that is \<open>undefined\<close>.
\<close>

fun filter_key :: "string \<Rightarrow> cookie option list \<Rightarrow> js_error + cookie list" where
  "filter_key n [] = Inr []"
| "filter_key n (None # cs) = Inl TypeError"
| "filter_key n (Some c # cs) =
     (case filter_key n cs of
        Inl e \<Rightarrow> Inl e
      | Inr r \<Rightarrow> Inr (if cookie_key c = n then c # r else r))"

text \<open>\<open>cookies.map((c) => c.key)\<close>, with the same read.\<close>

fun map_key :: "cookie option list \<Rightarrow> js_error + string list" where
  "map_key [] = Inr []"
| "map_key (None # cs) = Inl TypeError"
| "map_key (Some c # cs) =
     (case map_key cs of
        Inl e \<Rightarrow> Inl e
      | Inr r \<Rightarrow> Inr (cookie_key c # r))"

text \<open>\<open>Array.prototype.join\<close> on strings.\<close>

fun join :: "string \<Rightarrow> string list \<Rightarrow> string" where
  "join sep [] = []"
| "join sep [x] = x"
| "join sep (x # y # ys) = x @ sep @ join sep (y # ys)"

section \<open>The tag's \<open>run\<close>\<close>

text \<open>
  Lines 112 to 125 of \<open>run\<close>: the cookies of the response, the check that there are some,
  the first one whose key is the requested name, and the error that lists the keys when
  there is none. \<open>name\<close> is \<open>options.cookieName\<close>, a non-empty string at this point.
\<close>

definition select_cookie :: "env \<Rightarrow> string \<Rightarrow> response \<Rightarrow> js_error + string" where
  "select_cookie e name r =
     (let cookies = getCookies e r
      in if length cookies = 0 then Inl (Error ''No cookies set for response'')
         else
           (case filter_key name cookies of
              Inl x \<Rightarrow> Inl x
            | Inr (cookie # rest) \<Rightarrow> Inr (cookie_value cookie)
            | Inr [] \<Rightarrow>
                (case map_key cookies of
                   Inl x \<Rightarrow> Inl x
                 | Inr keys \<Rightarrow>
                     Inl (Error (''No '' @ name @ '' cookie for response. Choices are ''
                                 @ join '', '' keys @ ''.'')))))"

text \<open>
  Lines 97 to 125 of \<open>run\<close>: the checks on the response that is left after the resend step.
  An \<open>error\<close> that is \<open>undefined\<close> or empty is falsy, and so is a \<open>statusCode\<close> that is
  \<open>undefined\<close> or \<open>0\<close>.
\<close>

definition check_response ::
    "env \<Rightarrow> string \<Rightarrow> response option \<Rightarrow> world \<Rightarrow> (js_error + string) \<times> world" where
  "check_response e name resp w =
     (case resp of
        None \<Rightarrow> (Inl (Error ''No responses for request''), log ''No response found'' w)
      | Some r \<Rightarrow>
          (case (if truthy (error r) then error r else None) of
             Some msg \<Rightarrow>
               (Inl (Error (''Failed to send dependent request '' @ msg)),
                log (''Response error '' @ msg) w)
           | None \<Rightarrow>
               (case statusCode r of
                  None \<Rightarrow>
                    (Inl (Error ''No successful responses for request''),
                     log ''Invalid status code undefined'' w)
                | Some n \<Rightarrow>
                    if n = 0
                    then (Inl (Error ''No successful responses for request''),
                          log ''Invalid status code 0'' w)
                    else (select_cookie e name r, w))))"

text \<open>
  \<open>run(context, ...args)\<close>. The template literal of line 83 reads the name \<open>reqId\<close>, which
  no scope of the module declares (the id is \<open>options.reqId\<close>): evaluating it raises
  \<open>ReferenceError: reqId is not defined\<close> before the \<open>Error\<close> is built.
\<close>

definition run :: "env \<Rightarrow> ctx \<Rightarrow> args \<Rightarrow> world \<Rightarrow> (js_error + string) \<times> world" where
  "run e c a w =
     (let opts = parseOptions a
      in case (if truthy (reqId opts) then reqId opts else None) of
           None \<Rightarrow> (Inl (Error ''No request specified''), w)
         | Some rid \<Rightarrow>
             (case (if truthy (cookieName opts) then cookieName opts else None) of
                None \<Rightarrow> (Inl (Error ''No cookie specified''), w)
              | Some name \<Rightarrow>
                  (case getById c rid of
                     None \<Rightarrow> (Inl (ReferenceError ''reqId is not defined''), w)
                   | Some request \<Rightarrow>
                       let environmentId = getEnvironmentId c;
                           response = getLatestForRequestId c (request_id request) environmentId;
                           shouldResend = checkShouldResend (Date_now e) response opts;
                           (response', w') =
                             (if shouldResend \<and> renderPurpose c = Some ''send''
                              then
                                (let (sent, w1) = resendRequest c request w
                                 in (case sent of Some x \<Rightarrow> Some x | None \<Rightarrow> response, w1))
                              else (response, w))
                       in check_response e name response' w')))"

text \<open>The calls of the transport that a trace records.\<close>

fun is_Send :: "event \<Rightarrow> bool" where
  "is_Send (Send r a ids) = True"
| "is_Send (Log m) = False"

definition sends :: "world \<Rightarrow> event list" where
  "sends w = filter is_Send (trace w)"

section \<open>Concrete hosts\<close>

text \<open>
  A stand-in for \<open>Cookie.parse\<close> at concrete header values: the cookie pair is the text
  before the first semicolon, split at its first equals sign; there is no cookie when the
  pair has no equals sign or nothing before it. On the values used below (\<open>a=1\<close>,
  \<open>a=2\<close>, \<open>b=2\<close>, \<open>session=abc123; Path=/\<close>, \<open>session=xyz789\<close>, \<open>garbage\<close>) this is
  what \<open>tough-cookie\<close> returns: a cookie with that key and value, and nothing for
  \<open>garbage\<close>.
\<close>

definition simple_parse :: "string \<Rightarrow> cookie option" where
  "simple_parse s =
     (let pair = takeWhile (\<lambda>c. c \<noteq> CHR '';'') s;
          k = takeWhile (\<lambda>c. c \<noteq> CHR ''='') pair
      in if k = pair \<or> k = [] then None
         else Some \<lparr>cookie_key = k, cookie_value = drop (Suc (length k)) pair\<rparr>)"

definition env0 :: env where
  "env0 = \<lparr>Cookie_parse = simple_parse, Date_now = 1700000120000\<rparr>"

text \<open>
  A world whose only array, at address 0, holds the given request ids; nothing logged or
  sent yet.
\<close>

definition world_chain :: "string list \<Rightarrow> world" where
  "world_chain ids = \<lparr>mem = \<lparr>cells = (\<lambda>a. [])(0 := ids), fresh = 1\<rparr>, trace = []\<rparr>"

definition req1 :: request where
  "req1 = \<lparr>request_id = ''req_1''\<rparr>"

text \<open>The stored response, 120 seconds old on the clock of \<open>env0\<close>, and the one a resend gives.\<close>

definition resp_old :: response where
  "resp_old =
     \<lparr>created = 1700000000000, error = None, statusCode = Some 200,
      headers = [\<lparr>header_name = ''Content-Type'', header_value = ''text/plain''\<rparr>,
                 \<lparr>header_name = ''Set-Cookie'', header_value = ''session=abc123; Path=/''\<rparr>]\<rparr>"

definition resp_new :: response where
  "resp_new =
     \<lparr>created = 1700000120000, error = None, statusCode = Some 200,
      headers = [\<lparr>header_name = ''set-cookie'', header_value = ''session=xyz789''\<rparr>]\<rparr>"

text \<open>
  A host that knows the request \<open>req_1\<close> and its stored response, renders for a real send,
  keeps the request chain in the array at address 0, and whose transport answers with
  \<open>resp_new\<close> and leaves the heap alone.
\<close>

definition ctx0 :: ctx where
  "ctx0 =
     \<lparr>getById = (\<lambda>i. if i = ''req_1'' then Some req1 else None),
      getEnvironmentId = ''env_1'',
      getLatestForRequestId = (\<lambda>i v. if i = ''req_1'' \<and> v = ''env_1'' then Some resp_old else None),
      renderPurpose = Some ''send'',
      getExtraInfo = (\<lambda>k. if k = ''requestChain'' then Some 0 else None),
      sendRequest = (\<lambda>r x h. (Some resp_new, h))\<rparr>"

definition args0 :: args where
  "args0 = \<lparr>arg0 = Some ''req_1'', arg1 = Some ''session'', arg2 = None, arg3 = None\<rparr>"

text \<open>A successful response whose headers are \<open>Set-Cookie\<close> headers with the given values.\<close>

definition set_cookie :: "string \<Rightarrow> header" where
  "set_cookie v = \<lparr>header_name = ''Set-Cookie'', header_value = v\<rparr>"

definition resp_with :: "string list \<Rightarrow> response" where
  "resp_with vs =
     \<lparr>created = 1700000000000, error = None, statusCode = Some 200, headers = map set_cookie vs\<rparr>"

text \<open>
  Variants of the host: a preview render with no stored response, a host that keeps no
  request chain, and one whose stored response carries the given \<open>Set-Cookie\<close> values.
\<close>

definition ctx_preview :: ctx where
  "ctx_preview = ctx0\<lparr>getLatestForRequestId := (\<lambda>i v. None), renderPurpose := Some ''preview''\<rparr>"

definition ctx_nochain :: ctx where
  "ctx_nochain = ctx0\<lparr>getExtraInfo := (\<lambda>k. None)\<rparr>"

definition ctx_cookies :: "string list \<Rightarrow> ctx" where
  "ctx_cookies vs = ctx0\<lparr>getLatestForRequestId := (\<lambda>i v. Some (resp_with vs))\<rparr>"

section \<open>Basic facts\<close>

lemma toLowerCase_never: "toLowerCase ''never'' = ''never''"
  by (simp add: toLowerCase_def lower_char_def)

lemma toLowerCase_Nil: "toLowerCase [] = []"
  by (simp add: toLowerCase_def)

lemma parseOptions_fields:
  "reqId (parseOptions a) = arg0 a"
  "cookieName (parseOptions a) = arg1 a"
  "maxAgeSeconds (parseOptions a) = arg3 a"
  by (simp_all add: parseOptions_def)

lemma triggerBehavior_parseOptions:
  "triggerBehavior (parseOptions (a\<lparr>arg2 := Some t\<rparr>)) =
     (if t = [] then ''never'' else toLowerCase t)"
  by (simp add: parseOptions_def defaultTriggerBehaviour_def toLowerCase_never)

lemma sends_log: "sends (log m w) = sends w"
  by (simp add: sends_def log_def)

lemma mem_log: "mem (log m w) = mem w"
  by (simp add: log_def)

lemma sends_check_response: "sends (snd (check_response e name resp w)) = sends w"
  by (simp add: check_response_def sends_log split: option.splits)

lemma mem_check_response: "mem (snd (check_response e name resp w)) = mem w"
  by (simp add: check_response_def mem_log split: option.splits)

lemma check_response_ok:
  "\<not> truthy (error r) \<Longrightarrow> statusCode r = Some n \<Longrightarrow> n \<noteq> 0 \<Longrightarrow>
     check_response e name (Some r) w = (select_cookie e name r, w)"
  by (simp add: check_response_def)

lemma run_no_request:
  "\<not> truthy (arg0 a) \<Longrightarrow> run e c a w = (Inl (Error ''No request specified''), w)"
  by (simp add: run_def parseOptions_fields)

lemma run_no_cookie:
  "truthy (arg0 a) \<Longrightarrow> \<not> truthy (arg1 a) \<Longrightarrow>
     run e c a w = (Inl (Error ''No cookie specified''), w)"
  by (cases "arg0 a") (simp_all add: run_def parseOptions_fields)

lemma run_not_found:
  "arg0 a = Some rid \<Longrightarrow> rid \<noteq> [] \<Longrightarrow> truthy (arg1 a) \<Longrightarrow> getById c rid = None \<Longrightarrow>
     run e c a w = (Inl (ReferenceError ''reqId is not defined''), w)"
  by (cases "arg1 a") (simp_all add: run_def parseOptions_fields)

lemma run_found:
  assumes "arg0 a = Some rid" "rid \<noteq> []" "arg1 a = Some name" "name \<noteq> []"
    and "getById c rid = Some request"
  shows "run e c a w =
    (let prior = getLatestForRequestId c (request_id request) (getEnvironmentId c)
     in if checkShouldResend (Date_now e) prior (parseOptions a) \<and> renderPurpose c = Some ''send''
        then check_response e name
               (case fst (resendRequest c request w) of Some x \<Rightarrow> Some x | None \<Rightarrow> prior)
               (snd (resendRequest c request w))
        else check_response e name prior w)"
  using assms
  by (simp add: run_def parseOptions_fields Let_def split_beta)

lemma resendRequest_cycle:
  assumes "getExtraInfo c ''requestChain'' = Some ch"
    and "request_id request \<in> set (cells (mem w) ch)"
  shows "resendRequest c request w = (None, log ''Preventing recursive render'' w)"
  using assms by (simp add: resendRequest_def)

lemma checkShouldResend_when_expired:
  "triggerBehavior opts = ''when-expired'' \<Longrightarrow>
     checkShouldResend now (Some r) opts = js_gt (ageSeconds now r) (toNumber (maxAgeSeconds opts))"
  by (simp add: checkShouldResend_def)

lemma when_expired_without_maxAge:
  "triggerBehavior opts = ''when-expired'' \<Longrightarrow> maxAgeSeconds opts = None \<Longrightarrow>
     \<not> checkShouldResend now (Some r) opts"
  by (cases "ageSeconds now r") (simp_all add: checkShouldResend_when_expired)

subsection \<open>Cookie selection\<close>

lemma filter_key_parsed:
  "filter_key n (map Some cs) = Inr (filter (\<lambda>c. cookie_key c = n) cs)"
  by (induction cs) simp_all

lemma map_key_parsed: "map_key (map Some cs) = Inr (map cookie_key cs)"
  by (induction cs) simp_all

lemma filter_key_unparsed: "None \<in> set cs \<Longrightarrow> filter_key n cs = Inl TypeError"
proof (induction cs)
  case Nil
  then show ?case by simp
next
  case (Cons c cs)
  show ?case
  proof (cases c)
    case None
    then show ?thesis by simp
  next
    case (Some x)
    with Cons have "filter_key n cs = Inl TypeError" by simp
    with Some show ?thesis by simp
  qed
qed

lemma first_of_filter:
  "(case filter P xs of [] \<Rightarrow> a | x # rest \<Rightarrow> f x) = (case find P xs of None \<Rightarrow> a | Some x \<Rightarrow> f x)"
  by (induction xs) simp_all

text \<open>
  When every \<open>Set-Cookie\<close> value parses, the selection is the first cookie in header order
  whose key is the requested name, and without one the error lists the keys in that order,
  joined by a comma and a space. One value that does not parse makes the selection raise a
  \<open>TypeError\<close>, wherever it stands and whatever the other cookies are.
\<close>

lemma select_cookie_first_match:
  assumes "getCookies e r = map Some cs" and "cs \<noteq> []"
  shows "select_cookie e name r =
    (case find (\<lambda>c. cookie_key c = name) cs of
       Some c \<Rightarrow> Inr (cookie_value c)
     | None \<Rightarrow> Inl (Error (''No '' @ name @ '' cookie for response. Choices are ''
                          @ join '', '' (map cookie_key cs) @ ''.'')))"
  using assms
  by (simp add: select_cookie_def filter_key_parsed map_key_parsed first_of_filter [symmetric]
      split: list.splits)

lemma select_cookie_unparsed:
  assumes "None \<in> set (getCookies e r)"
  shows "select_cookie e name r = Inl TypeError"
proof -
  from assms have "getCookies e r \<noteq> []" by auto
  with assms show ?thesis
    by (simp add: select_cookie_def filter_key_unparsed)
qed

subsection \<open>Evaluation at the concrete hosts\<close>

lemma toLowerCase_examples:
  "toLowerCase ''Never'' = ''never''"
  "toLowerCase ''NO-History'' = ''no-history''"
  "toLowerCase ''ALWAYS'' = ''always''"
  "toLowerCase ''always'' = ''always''"
  "toLowerCase ''When-Expired'' = ''when-expired''"
  "toLowerCase ''sometimes'' = ''sometimes''"
  "toLowerCase ''when-expired'' = ''when-expired''"
  "toLowerCase ''Set-Cookie'' = ''set-cookie''"
  "toLowerCase ''set-cookie'' = ''set-cookie''"
  "toLowerCase ''Content-Type'' = ''content-type''"
  by code_simp+

lemma simple_parse_examples:
  "simple_parse ''session=abc123; Path=/'' = Some \<lparr>cookie_key = ''session'', cookie_value = ''abc123''\<rparr>"
  "simple_parse ''session=xyz789'' = Some \<lparr>cookie_key = ''session'', cookie_value = ''xyz789''\<rparr>"
  "simple_parse ''a=1'' = Some \<lparr>cookie_key = ''a'', cookie_value = ''1''\<rparr>"
  "simple_parse ''a=2'' = Some \<lparr>cookie_key = ''a'', cookie_value = ''2''\<rparr>"
  "simple_parse ''b=2'' = Some \<lparr>cookie_key = ''b'', cookie_value = ''2''\<rparr>"
  "simple_parse ''garbage'' = None"
  by (simp_all add: simple_parse_def)

lemmas concrete_defs =
  env0_def ctx0_def args0_def req1_def resp_old_def resp_new_def world_chain_def
  resp_with_def set_cookie_def

lemmas run_eval =
  run_def parseOptions_def checkShouldResend_def resendRequest_def check_response_def
  select_cookie_def getCookies_def log_def push_def new_array_def sends_def logPrefix_def
  defaultTriggerBehaviour_def Let_def concrete_defs toLowerCase_examples toLowerCase_never
  simple_parse_examples

lemma ageSeconds_examples:
  "ageSeconds 1700000060000 resp_old = Finite 60"
  "ageSeconds 1700000060001 resp_old = Finite (8444390038808035 / 140737488355328)"
  "ageSeconds 1700000120000 resp_old = Finite 120"
  by code_simp+

lemma select_cookie_resp_old: "select_cookie env0 ''session'' (resp_old\<lparr>statusCode := x\<rparr>) = Inr ''abc123''"
  by (simp add: select_cookie_def getCookies_def concrete_defs toLowerCase_examples
      simple_parse_examples)

lemma run_resend_example:
  "fst (run env0 ctx0 (args0\<lparr>arg2 := Some ''always''\<rparr>) (world_chain [''req_0''])) = Inr ''xyz789''"
  "sends (snd (run env0 ctx0 (args0\<lparr>arg2 := Some ''always''\<rparr>) (world_chain [''req_0''])))
     = [Send req1 0 [''req_0'', ''req_1'']]"
  "cells (mem (snd (run env0 ctx0 (args0\<lparr>arg2 := Some ''always''\<rparr>) (world_chain [''req_0''])))) 0
     = [''req_0'', ''req_1'']"
  by (simp_all add: run_eval)

lemma getCookies_resp_with:
  "getCookies env0 (resp_with vs) = map simple_parse vs"
  by (simp add: getCookies_def resp_with_def env0_def set_cookie_def toLowerCase_examples
      comp_def)

lemma run_stored_response:
  "fst (run env0 (ctx_cookies vs) (args0\<lparr>arg1 := Some name\<rparr>) (world_chain []))
     = (if name = [] then Inl (Error ''No cookie specified'')
        else select_cookie env0 name (resp_with vs))"
  by (simp add: run_def parseOptions_def checkShouldResend_def check_response_def
      defaultTriggerBehaviour_def toLowerCase_never Let_def ctx_cookies_def ctx0_def args0_def
      req1_def) (simp add: resp_with_def)

section \<open>The resend decision\<close>

text \<open>
  C2. The decision table of \<open>checkShouldResend\<close> on the options that \<open>parseOptions\<close>
  builds from a trigger behaviour \<open>t\<close>: when \<open>t\<close> lower-cases to \<open>never\<close> the decision is
  false with and without a last response; to \<open>no-history\<close>, it is true exactly when there
  is no last response; to \<open>always\<close>, it is true in both cases; to \<open>when-expired\<close>, it is
  true without a last response; and when \<open>t\<close> lower-cases to none of the four values the
  decision is false in both cases (a boolean is returned, nothing is rejected).
\<close>

theorem resend_decision_table:
  "(toLowerCase t1 = ''never'' \<longrightarrow>
      \<not> checkShouldResend now resp (parseOptions (a\<lparr>arg2 := Some t1\<rparr>)))
   \<and> (toLowerCase t2 = ''no-history'' \<longrightarrow>
      checkShouldResend now resp (parseOptions (a\<lparr>arg2 := Some t2\<rparr>)) = (resp = None))
   \<and> (toLowerCase t3 = ''always'' \<longrightarrow>
      checkShouldResend now resp (parseOptions (a\<lparr>arg2 := Some t3\<rparr>)))
   \<and> (toLowerCase t4 = ''when-expired'' \<longrightarrow>
      checkShouldResend now None (parseOptions (a\<lparr>arg2 := Some t4\<rparr>)))
   \<and> (toLowerCase t5 \<notin> {''never'', ''no-history'', ''when-expired'', ''always''} \<longrightarrow>
      \<not> checkShouldResend now resp (parseOptions (a\<lparr>arg2 := Some t5\<rparr>)))"
proof (intro conjI impI)
  assume "toLowerCase t1 = ''never''"
  then show "\<not> checkShouldResend now resp (parseOptions (a\<lparr>arg2 := Some t1\<rparr>))"
    by (simp add: checkShouldResend_def triggerBehavior_parseOptions)
next
  assume h: "toLowerCase t2 = ''no-history''"
  then have "t2 \<noteq> []" by (auto simp: toLowerCase_Nil)
  with h show "checkShouldResend now resp (parseOptions (a\<lparr>arg2 := Some t2\<rparr>)) = (resp = None)"
    by (simp add: checkShouldResend_def triggerBehavior_parseOptions)
next
  assume h: "toLowerCase t3 = ''always''"
  then have "t3 \<noteq> []" by (auto simp: toLowerCase_Nil)
  with h show "checkShouldResend now resp (parseOptions (a\<lparr>arg2 := Some t3\<rparr>))"
    by (simp add: checkShouldResend_def triggerBehavior_parseOptions)
next
  assume h: "toLowerCase t4 = ''when-expired''"
  then have "t4 \<noteq> []" by (auto simp: toLowerCase_Nil)
  with h show "checkShouldResend now None (parseOptions (a\<lparr>arg2 := Some t4\<rparr>))"
    by (simp add: checkShouldResend_def triggerBehavior_parseOptions)
next
  assume h: "toLowerCase t5 \<notin> {''never'', ''no-history'', ''when-expired'', ''always''}"
  show "\<not> checkShouldResend now resp (parseOptions (a\<lparr>arg2 := Some t5\<rparr>))"
  proof (cases "t5 = []")
    case True
    then show ?thesis by (simp add: checkShouldResend_def triggerBehavior_parseOptions)
  next
    case False
    with h show ?thesis by (simp add: checkShouldResend_def triggerBehavior_parseOptions)
  qed
qed

theorem resend_decision_table_witness:
  "\<not> checkShouldResend 0 (Some resp_old) (parseOptions (args0\<lparr>arg2 := Some ''Never''\<rparr>))
   \<and> \<not> checkShouldResend 0 None (parseOptions (args0\<lparr>arg2 := Some ''Never''\<rparr>))
   \<and> \<not> checkShouldResend 0 (Some resp_old) (parseOptions (args0\<lparr>arg2 := Some ''NO-History''\<rparr>))
   \<and> checkShouldResend 0 None (parseOptions (args0\<lparr>arg2 := Some ''NO-History''\<rparr>))
   \<and> checkShouldResend 0 (Some resp_old) (parseOptions (args0\<lparr>arg2 := Some ''ALWAYS''\<rparr>))
   \<and> checkShouldResend 0 None (parseOptions (args0\<lparr>arg2 := Some ''When-Expired''\<rparr>))
   \<and> \<not> checkShouldResend 0 (Some resp_old) (parseOptions (args0\<lparr>arg2 := Some ''sometimes''\<rparr>))
   \<and> \<not> checkShouldResend 0 None (parseOptions (args0\<lparr>arg2 := Some ''sometimes''\<rparr>))"
  using resend_decision_table [of "''Never''" 0 "Some resp_old" args0 "''NO-History''" "''ALWAYS''" "''When-Expired''" "''sometimes''"]
    resend_decision_table [of "''Never''" 0 "None" args0 "''NO-History''" "''ALWAYS''" "''When-Expired''" "''sometimes''"]
  by (simp add: toLowerCase_examples)

text \<open>
  C3. With the trigger behaviour \<open>when-expired\<close>, a last response and a maximum age \<open>M\<close>,
  the decision is the comparison \<open>ageSeconds > M\<close> of the age that the code computes (the
  difference of the millisecond timestamps divided by 1000, both operations rounded to
  binary64): it is true exactly when that age is strictly greater than \<open>M\<close>, false when
  the age equals \<open>M\<close>, and true when the age is \<open>M + \<epsilon>\<close> for any \<open>\<epsilon> > 0\<close>.
\<close>

theorem when_expired_strictly_older:
  assumes "triggerBehavior opts = ''when-expired''" and "maxAgeSeconds opts = Some (Finite M)"
  shows "checkShouldResend now (Some r) opts = js_gt (ageSeconds now r) (Finite M)
    \<and> (ageSeconds now r = Finite age \<longrightarrow> checkShouldResend now (Some r) opts = (M < age))
    \<and> (ageSeconds now r1 = Finite M \<longrightarrow> \<not> checkShouldResend now (Some r1) opts)
    \<and> (0 < \<epsilon> \<and> ageSeconds now r2 = Finite (M + \<epsilon>) \<longrightarrow> checkShouldResend now (Some r2) opts)"
proof -
  have eq: "checkShouldResend now (Some x) opts = js_gt (ageSeconds now x) (Finite M)" for x
    using assms by (simp add: checkShouldResend_when_expired)
  show ?thesis
    by (simp add: eq)
qed

theorem when_expired_strictly_older_witness:
  "ageSeconds 1700000060000 resp_old = Finite 60
   \<and> \<not> checkShouldResend 1700000060000 (Some resp_old)
         (parseOptions (args0\<lparr>arg2 := Some ''When-Expired'', arg3 := Some (Finite 60)\<rparr>))
   \<and> ageSeconds 1700000060001 resp_old = Finite (60 + 140737488355 / 140737488355328)
   \<and> checkShouldResend 1700000060001 (Some resp_old)
         (parseOptions (args0\<lparr>arg2 := Some ''When-Expired'', arg3 := Some (Finite 60)\<rparr>))"
proof -
  let ?opts = "parseOptions (args0\<lparr>arg2 := Some ''When-Expired'', arg3 := Some (Finite 60)\<rparr>)"
  have t: "triggerBehavior ?opts = ''when-expired''"
    by (simp add: parseOptions_def toLowerCase_examples)
  have m: "maxAgeSeconds ?opts = Some (Finite 60)"
    by (simp add: parseOptions_fields)
  have a1: "ageSeconds 1700000060000 resp_old = Finite 60"
    by (rule ageSeconds_examples)
  have a2: "ageSeconds 1700000060001 resp_old = Finite (60 + 140737488355 / 140737488355328)"
    by (simp add: ageSeconds_examples)
  have e: "(0::rat) < 140737488355 / 140737488355328"
    by simp
  from when_expired_strictly_older [OF t m, of 1700000060000 resp_old 60 resp_old]
  have "\<not> checkShouldResend 1700000060000 (Some resp_old) ?opts"
    using a1 by blast
  moreover
  from when_expired_strictly_older [OF t m, of 1700000060001 resp_old 0 resp_old
      "140737488355 / 140737488355328" resp_old]
  have "checkShouldResend 1700000060001 (Some resp_old) ?opts"
    using a2 e by blast
  ultimately show ?thesis using a1 a2 by blast
qed

text \<open>
  C6. The claim is that a \<open>maxAgeSeconds\<close> that is not supplied counts as 60, so that a
  response 120 seconds old is resent under \<open>when-expired\<close>. \<open>parseOptions\<close> passes
  \<open>args[3]\<close> on as it is, \<open>undefined\<close> here, and \<open>ageSeconds > undefined\<close> is false: with
  three arguments the response of 120 seconds is not resent, while it is with the fourth
  argument 60. The default 60 stands only in the declaration of the argument.
\<close>

theorem missing_maxAge_never_expires:
  "arg3 (args0\<lparr>arg2 := Some ''when-expired''\<rparr>) = None
   \<and> ageSeconds (Date_now env0) resp_old = Finite 120
   \<and> \<not> checkShouldResend (Date_now env0) (Some resp_old)
         (parseOptions (args0\<lparr>arg2 := Some ''when-expired''\<rparr>))
   \<and> checkShouldResend (Date_now env0) (Some resp_old)
         (parseOptions (args0\<lparr>arg2 := Some ''when-expired'', arg3 := Some (Finite 60)\<rparr>))"
proof -
  have now: "Date_now env0 = 1700000120000"
    by (simp add: env0_def)
  have t: "triggerBehavior (parseOptions (args0\<lparr>arg2 := Some ''when-expired'', arg3 := x\<rparr>))
      = ''when-expired''" for x
    by (simp add: parseOptions_def toLowerCase_examples)
  have t0: "triggerBehavior (parseOptions (args0\<lparr>arg2 := Some ''when-expired''\<rparr>))
      = ''when-expired''"
    by (simp add: parseOptions_def toLowerCase_examples)
  have none: "arg3 (args0\<lparr>arg2 := Some ''when-expired''\<rparr>) = None"
    by (simp add: args0_def)
  have "\<not> checkShouldResend (Date_now env0) (Some resp_old)
         (parseOptions (args0\<lparr>arg2 := Some ''when-expired''\<rparr>))"
    by (rule when_expired_without_maxAge [OF t0]) (simp add: parseOptions_fields none)
  moreover have "checkShouldResend (Date_now env0) (Some resp_old)
         (parseOptions (args0\<lparr>arg2 := Some ''when-expired'', arg3 := Some (Finite 60)\<rparr>))"
    by (simp add: checkShouldResend_when_expired [OF t] parseOptions_fields now ageSeconds_examples)
  ultimately show ?thesis
    using none by (simp add: now ageSeconds_examples)
qed

section \<open>The cycle guard and the transport\<close>

text \<open>
  C1. When the arguments are given, the request is found and its id is already in the
  request chain that \<open>getExtraInfo\<close> returns, \<open>resendRequest\<close> returns nothing (it does
  not fail), \<open>run\<close> records no call of the transport and leaves the heap as it was, and the
  outcome of \<open>run\<close> is that of the checks and the cookie selection on the last response of
  the store, which may be absent; the only effect of the guard is its log line.
\<close>

theorem cycle_guard_reuses_known_response:
  assumes "arg0 a = Some rid" and "rid \<noteq> []" and "arg1 a = Some name" and "name \<noteq> []"
    and "getById c rid = Some request"
    and "getExtraInfo c ''requestChain'' = Some ch"
    and "request_id request \<in> set (cells (mem w) ch)"
  shows "resendRequest c request w = (None, log ''Preventing recursive render'' w)
    \<and> sends (snd (run e c a w)) = sends w
    \<and> mem (snd (run e c a w)) = mem w
    \<and> run e c a w =
        check_response e name (getLatestForRequestId c (request_id request) (getEnvironmentId c))
          (if checkShouldResend (Date_now e)
                (getLatestForRequestId c (request_id request) (getEnvironmentId c)) (parseOptions a)
              \<and> renderPurpose c = Some ''send''
           then log ''Preventing recursive render'' w else w)"
proof -
  have guard: "resendRequest c request w = (None, log ''Preventing recursive render'' w)"
    using assms(6,7) by (rule resendRequest_cycle)
  have shape: "run e c a w =
        check_response e name (getLatestForRequestId c (request_id request) (getEnvironmentId c))
          (if checkShouldResend (Date_now e)
                (getLatestForRequestId c (request_id request) (getEnvironmentId c)) (parseOptions a)
              \<and> renderPurpose c = Some ''send''
           then log ''Preventing recursive render'' w else w)"
    by (simp add: run_found [OF assms(1-5)] guard Let_def)
  have "sends (snd (run e c a w)) = sends w"
    unfolding shape by (simp add: sends_check_response sends_log)
  moreover have "mem (snd (run e c a w)) = mem w"
    unfolding shape by (simp add: mem_check_response mem_log)
  ultimately show ?thesis using guard shape by blast
qed

theorem cycle_guard_reuses_known_response_witness:
  "request_id req1 \<in> set (cells (mem (world_chain [''req_0'', ''req_1''])) 0)
   \<and> resendRequest ctx0 req1 (world_chain [''req_0'', ''req_1''])
       = (None, log ''Preventing recursive render'' (world_chain [''req_0'', ''req_1'']))
   \<and> sends (snd (run env0 ctx0 (args0\<lparr>arg2 := Some ''always''\<rparr>) (world_chain [''req_0'', ''req_1''])))
       = []
   \<and> fst (run env0 ctx0 (args0\<lparr>arg2 := Some ''always''\<rparr>) (world_chain [''req_0'', ''req_1'']))
       = Inr ''abc123''"
proof -
  have h: "request_id req1 \<in> set (cells (mem (world_chain [''req_0'', ''req_1''])) 0)"
    by (simp add: concrete_defs)
  have always: "checkShouldResend (Date_now env0)
      (getLatestForRequestId ctx0 (request_id req1) (getEnvironmentId ctx0))
      (parseOptions (args0\<lparr>arg2 := Some ''always''\<rparr>))"
    by (simp add: checkShouldResend_def parseOptions_def toLowerCase_examples)
  have sel: "select_cookie env0 ''session'' resp_old = Inr ''abc123''"
    by (simp add: select_cookie_def getCookies_def concrete_defs toLowerCase_examples
        simple_parse_examples)
  note t = cycle_guard_reuses_known_response [of "args0\<lparr>arg2 := Some ''always''\<rparr>" "''req_1''"
      "''session''" ctx0 req1 0 "world_chain [''req_0'', ''req_1'']" env0]
  have pre: "arg0 (args0\<lparr>arg2 := Some ''always''\<rparr>) = Some ''req_1''"
    "arg1 (args0\<lparr>arg2 := Some ''always''\<rparr>) = Some ''session''"
    "getById ctx0 ''req_1'' = Some req1" "getExtraInfo ctx0 ''requestChain'' = Some 0"
    by (simp_all add: concrete_defs)
  have r: "getLatestForRequestId ctx0 (request_id req1) (getEnvironmentId ctx0) = Some resp_old"
    by (simp add: ctx0_def req1_def)
  have s0: "sends (world_chain [''req_0'', ''req_1'']) = []"
    by (simp add: sends_def world_chain_def)
  have chk: "fst (check_response env0 ''session'' (Some resp_old) w) = Inr ''abc123''" for w
    using check_response_ok [of resp_old 200 env0 "''session''" w]
    by (simp add: sel) (simp add: resp_old_def)
  have ne: "''req_1'' \<noteq> []" "''session'' \<noteq> []"
    by simp_all
  note t' = t [OF pre(1) ne(1) pre(2) ne(2) pre(3) pre(4) h, unfolded r]
  have guard: "resendRequest ctx0 req1 (world_chain [''req_0'', ''req_1''])
       = (None, log ''Preventing recursive render'' (world_chain [''req_0'', ''req_1'']))"
    using t' by (rule conjunct1)
  have quiet: "sends (snd (run env0 ctx0 (args0\<lparr>arg2 := Some ''always''\<rparr>)
       (world_chain [''req_0'', ''req_1'']))) = []"
    using t' [THEN conjunct2, THEN conjunct1] by (simp only: s0)
  have "fst (run env0 ctx0 (args0\<lparr>arg2 := Some ''always''\<rparr>) (world_chain [''req_0'', ''req_1'']))
       = Inr ''abc123''"
    by (simp only: t' [THEN conjunct2, THEN conjunct2, THEN conjunct2] chk)
  with h guard quiet show ?thesis by blast
qed

text \<open>
  C4. A run that calls the transport is a run for a real send (\<open>renderPurpose\<close> is
  \<open>send\<close>) of a request that was found and for which the resend decision is true. When the
  render purpose is anything else, no call of the transport is recorded, whatever the
  decision; and if then the request is found and has no stored response, \<open>run\<close> fails with
  \<open>No responses for request\<close>.
\<close>

theorem transport_only_on_decided_real_send:
  "(sends (snd (run e c a w)) \<noteq> sends w \<longrightarrow>
      renderPurpose c = Some ''send''
      \<and> (\<exists>rid request. arg0 a = Some rid \<and> getById c rid = Some request
            \<and> checkShouldResend (Date_now e)
                 (getLatestForRequestId c (request_id request) (getEnvironmentId c))
                 (parseOptions a)))
   \<and> (renderPurpose c \<noteq> Some ''send'' \<longrightarrow> sends (snd (run e c a w)) = sends w)
   \<and> (renderPurpose c \<noteq> Some ''send'' \<and> arg0 a = Some rid' \<and> rid' \<noteq> [] \<and> truthy (arg1 a)
        \<and> getById c rid' = Some request'
        \<and> getLatestForRequestId c (request_id request') (getEnvironmentId c) = None \<longrightarrow>
        fst (run e c a w) = Inl (Error ''No responses for request''))"
proof -
  have only: "sends (snd (run e c a w)) = sends w"
    if no: "\<not> (renderPurpose c = Some ''send''
      \<and> (\<exists>rid request. arg0 a = Some rid \<and> getById c rid = Some request
            \<and> checkShouldResend (Date_now e)
                 (getLatestForRequestId c (request_id request) (getEnvironmentId c))
                 (parseOptions a)))"
  proof (cases "truthy (arg0 a)")
    case False
    then show ?thesis by (simp add: run_no_request)
  next
    case t0: True
    then obtain rid where rid: "arg0 a = Some rid" "rid \<noteq> []"
      by (cases "arg0 a") auto
    show ?thesis
    proof (cases "truthy (arg1 a)")
      case False
      with t0 show ?thesis by (simp add: run_no_cookie)
    next
      case t1: True
      then obtain name where name: "arg1 a = Some name" "name \<noteq> []"
        by (cases "arg1 a") auto
      show ?thesis
      proof (cases "getById c rid")
        case None
        with rid t1 show ?thesis by (simp add: run_not_found)
      next
        case (Some request)
        with no rid have off: "(checkShouldResend (Date_now e)
            (getLatestForRequestId c (request_id request) (getEnvironmentId c)) (parseOptions a)
            \<and> renderPurpose c = Some ''send'') = False"
          by blast
        show ?thesis
          unfolding run_found [OF rid name Some] Let_def off
          by (simp add: sends_check_response)
      qed
    qed
  qed
  have preview: "sends (snd (run e c a w)) = sends w" if "renderPurpose c \<noteq> Some ''send''"
    using that by (intro only) simp
  have nores: "fst (run e c a w) = Inl (Error ''No responses for request'')"
    if "renderPurpose c \<noteq> Some ''send''" "arg0 a = Some rid'" "rid' \<noteq> []" "truthy (arg1 a)"
      "getById c rid' = Some request'"
      "getLatestForRequestId c (request_id request') (getEnvironmentId c) = None"
  proof -
    from that(4) obtain name where name: "arg1 a = Some name" "name \<noteq> []"
      by (cases "arg1 a") auto
    from that(1) have off: "(checkShouldResend (Date_now e)
        (getLatestForRequestId c (request_id request') (getEnvironmentId c)) (parseOptions a)
        \<and> renderPurpose c = Some ''send'') = False"
      by simp
    show ?thesis
      unfolding run_found [OF that(2,3) name that(5)] Let_def off
      by (simp add: that(6) check_response_def)
  qed
  show ?thesis
    using only preview nores by blast
qed

theorem transport_only_on_decided_real_send_witness:
  "sends (snd (run env0 ctx0 (args0\<lparr>arg2 := Some ''always''\<rparr>) (world_chain [''req_0''])))
     \<noteq> sends (world_chain [''req_0''])
   \<and> renderPurpose ctx0 = Some ''send''
   \<and> (\<exists>rid request. arg0 (args0\<lparr>arg2 := Some ''always''\<rparr>) = Some rid
         \<and> getById ctx0 rid = Some request
         \<and> checkShouldResend (Date_now env0)
              (getLatestForRequestId ctx0 (request_id request) (getEnvironmentId ctx0))
              (parseOptions (args0\<lparr>arg2 := Some ''always''\<rparr>)))
   \<and> renderPurpose ctx_preview \<noteq> Some ''send''
   \<and> checkShouldResend (Date_now env0) None (parseOptions (args0\<lparr>arg2 := Some ''always''\<rparr>))
   \<and> sends (snd (run env0 ctx_preview (args0\<lparr>arg2 := Some ''always''\<rparr>) (world_chain []))) = []
   \<and> fst (run env0 ctx_preview (args0\<lparr>arg2 := Some ''always''\<rparr>) (world_chain []))
       = Inl (Error ''No responses for request'')"
proof -
  let ?a = "args0\<lparr>arg2 := Some ''always''\<rparr>"
  have changed: "sends (snd (run env0 ctx0 ?a (world_chain [''req_0''])))
      \<noteq> sends (world_chain [''req_0''])"
    by (simp add: run_resend_example) (simp add: sends_def world_chain_def)
  have p: "renderPurpose ctx_preview \<noteq> Some ''send''"
    by (simp add: ctx_preview_def)
  have pre: "arg0 ?a = Some ''req_1''" "''req_1'' \<noteq> []" "truthy (arg1 ?a)"
    "getById ctx_preview ''req_1'' = Some req1"
    "getLatestForRequestId ctx_preview (request_id req1) (getEnvironmentId ctx_preview) = None"
    by (simp_all add: ctx_preview_def concrete_defs)
  have dec: "checkShouldResend (Date_now env0) None (parseOptions ?a)"
    by (simp add: checkShouldResend_def parseOptions_def toLowerCase_examples)
  have s0: "sends (world_chain []) = []"
    by (simp add: sends_def world_chain_def)
  note t1 = transport_only_on_decided_real_send [of env0 ctx0 ?a "world_chain [''req_0'']"]
  note t2 = transport_only_on_decided_real_send [of env0 ctx_preview ?a "world_chain []"
      "''req_1''" req1]
  from t1 changed have c1: "renderPurpose ctx0 = Some ''send''
      \<and> (\<exists>rid request. arg0 ?a = Some rid \<and> getById ctx0 rid = Some request
         \<and> checkShouldResend (Date_now env0)
              (getLatestForRequestId ctx0 (request_id request) (getEnvironmentId ctx0))
              (parseOptions ?a))"
    by blast
  from t2 p have c2: "sends (snd (run env0 ctx_preview ?a (world_chain []))) = []"
    unfolding s0 by blast
  from t2 p pre have c3: "fst (run env0 ctx_preview ?a (world_chain []))
       = Inl (Error ''No responses for request'')"
    by blast
  from changed c1 p dec c2 c3 show ?thesis by blast
qed

text \<open>
  C5, as claimed: the id is appended to a copy of the chain, and the chain that the context
  holds is left unchanged. It is not: with the chain \<open>[req_0]\<close> in the array at address 0,
  a resend of \<open>req_1\<close> leaves \<open>[req_0, req_1]\<close> in that same array, and the transport is
  given address 0, the array of the context itself.
\<close>

theorem stored_chain_is_changed:
  "getExtraInfo ctx0 ''requestChain'' = Some 0
   \<and> cells (mem (world_chain [''req_0''])) 0 = [''req_0'']
   \<and> cells (mem (snd (run env0 ctx0 (args0\<lparr>arg2 := Some ''always''\<rparr>) (world_chain [''req_0''])))) 0
       = [''req_0'', ''req_1'']
   \<and> sends (snd (run env0 ctx0 (args0\<lparr>arg2 := Some ''always''\<rparr>) (world_chain [''req_0''])))
       = [Send req1 0 [''req_0'', ''req_1'']]
   \<and> cells (mem (snd (run env0 ctx0 (args0\<lparr>arg2 := Some ''always''\<rparr>) (world_chain [''req_0''])))) 0
       \<noteq> cells (mem (world_chain [''req_0''])) 0"
  by (simp add: run_resend_example) (simp add: ctx0_def world_chain_def)

text \<open>
  C5, amended. When the request is resent, its id is appended in place to the array that
  \<open>getExtraInfo\<close> returned for \<open>requestChain\<close>, and that same array is passed to the
  transport under \<open>requestChain\<close>: the transport runs on a heap in which the array of the
  context holds the former ids followed by the new one, every other array being as before.
  Only when \<open>getExtraInfo\<close> returns nothing is a new array used, which then holds the id
  alone.
\<close>

theorem resend_appends_in_place:
  "(getExtraInfo c ''requestChain'' = Some ch \<and> request_id request \<notin> set (cells (mem w) ch) \<longrightarrow>
      resendRequest c request w =
        (let ids = cells (mem w) ch @ [request_id request];
             (r, h) = sendRequest c request [(''requestChain'', ch)]
                        ((mem w)\<lparr>cells := (cells (mem w))(ch := ids)\<rparr>)
         in (r, \<lparr>mem = h,
                 trace = trace w @ [Log ''[responseCookie tag] Resending dependency'',
                                    Send request ch ids]\<rparr>)))
   \<and> (getExtraInfo c' ''requestChain'' = None \<longrightarrow>
      resendRequest c' request w =
        (let ch = fresh (mem w);
             (r, h) = sendRequest c' request [(''requestChain'', ch)]
                        ((mem w)\<lparr>cells := (cells (mem w))(ch := [request_id request]),
                                 fresh := Suc ch\<rparr>)
         in (r, \<lparr>mem = h,
                 trace = trace w @ [Log ''[responseCookie tag] Resending dependency'',
                                    Send request ch [request_id request]]\<rparr>)))"
proof -
  obtain hp tr where w: "w = \<lparr>mem = hp, trace = tr\<rparr>"
    by (cases w) simp
  obtain cs f where hp: "hp = \<lparr>cells = cs, fresh = f\<rparr>"
    by (cases hp) simp
  show ?thesis
    unfolding w hp
    by (simp add: resendRequest_def new_array_def log_def push_def logPrefix_def Let_def
        split_beta)
qed

theorem resend_appends_in_place_witness:
  "getExtraInfo ctx0 ''requestChain'' = Some 0
   \<and> request_id req1 \<notin> set (cells (mem (world_chain [''req_0''])) 0)
   \<and> resendRequest ctx0 req1 (world_chain [''req_0''])
       = (Some resp_new,
          \<lparr>mem = \<lparr>cells = (\<lambda>a. [])(0 := [''req_0'', ''req_1'']), fresh = 1\<rparr>,
           trace = [Log ''[responseCookie tag] Resending dependency'',
                    Send req1 0 [''req_0'', ''req_1'']]\<rparr>)
   \<and> getExtraInfo ctx_nochain ''requestChain'' = None
   \<and> resendRequest ctx_nochain req1 (world_chain [''req_0''])
       = (Some resp_new,
          \<lparr>mem = \<lparr>cells = ((\<lambda>a. [])(0 := [''req_0'']))(1 := [''req_1'']), fresh = 2\<rparr>,
           trace = [Log ''[responseCookie tag] Resending dependency'',
                    Send req1 1 [''req_1'']]\<rparr>)"
proof -
  have h1: "getExtraInfo ctx0 ''requestChain'' = Some 0
      \<and> request_id req1 \<notin> set (cells (mem (world_chain [''req_0''])) 0)"
    by (simp add: ctx0_def req1_def world_chain_def)
  have h2: "getExtraInfo ctx_nochain ''requestChain'' = None"
    by (simp add: ctx_nochain_def)
  note t = resend_appends_in_place [of ctx0 0 req1 "world_chain [''req_0'']" ctx_nochain]
  have a: "resendRequest ctx0 req1 (world_chain [''req_0''])
       = (Some resp_new,
          \<lparr>mem = \<lparr>cells = (\<lambda>a. [])(0 := [''req_0'', ''req_1'']), fresh = 1\<rparr>,
           trace = [Log ''[responseCookie tag] Resending dependency'',
                    Send req1 0 [''req_0'', ''req_1'']]\<rparr>)"
    by (subst t [THEN conjunct1, THEN mp, OF h1])
      (simp add: ctx0_def req1_def world_chain_def Let_def)
  have b: "resendRequest ctx_nochain req1 (world_chain [''req_0''])
       = (Some resp_new,
          \<lparr>mem = \<lparr>cells = ((\<lambda>a. [])(0 := [''req_0'']))(1 := [''req_1'']), fresh = 2\<rparr>,
           trace = [Log ''[responseCookie tag] Resending dependency'',
                    Send req1 1 [''req_1'']]\<rparr>)"
    by (subst t [THEN conjunct2, THEN mp, OF h2])
      (simp add: ctx_nochain_def ctx0_def req1_def world_chain_def Let_def)
  from h1 h2 a b show ?thesis by blast
qed

section \<open>Checks on the response and cookie selection\<close>

text \<open>
  C7. The checks on the response left after the resend step fail in this order, each with
  its own error: \<open>No responses for request\<close> when there is no response; otherwise
  \<open>Failed to send dependent request\<close> with the error text when the response carries a
  non-empty error, whatever its status code; otherwise \<open>No successful responses for request\<close>
  when the status code is absent, whatever the headers are, also when they hold cookies
  that parse.
\<close>

theorem response_validation_order:
  "fst (check_response e name None w) = Inl (Error ''No responses for request'')
   \<and> (error r = Some msg \<and> msg \<noteq> [] \<longrightarrow>
        fst (check_response e name (Some r) w)
          = Inl (Error (''Failed to send dependent request '' @ msg)))
   \<and> (\<not> truthy (error r') \<and> statusCode r' = None \<longrightarrow>
        fst (check_response e name (Some r') w)
          = Inl (Error ''No successful responses for request''))"
  by (simp add: check_response_def)

theorem response_validation_order_witness:
  "fst (check_response env0 ''session'' None (world_chain []))
     = Inl (Error ''No responses for request'')
   \<and> fst (check_response env0 ''session''
            (Some (resp_old\<lparr>error := Some ''ECONNREFUSED'', statusCode := None\<rparr>)) (world_chain []))
     = Inl (Error ''Failed to send dependent request ECONNREFUSED'')
   \<and> select_cookie env0 ''session'' (resp_old\<lparr>statusCode := None\<rparr>) = Inr ''abc123''
   \<and> fst (check_response env0 ''session'' (Some (resp_old\<lparr>statusCode := None\<rparr>)) (world_chain []))
     = Inl (Error ''No successful responses for request'')"
proof -
  note t = response_validation_order [of env0 "''session''" "world_chain []"
      "resp_old\<lparr>error := Some ''ECONNREFUSED'', statusCode := None\<rparr>" "''ECONNREFUSED''"
      "resp_old\<lparr>statusCode := None\<rparr>"]
  have h1: "error (resp_old\<lparr>error := Some ''ECONNREFUSED'', statusCode := None\<rparr>)
      = Some ''ECONNREFUSED'' \<and> ''ECONNREFUSED'' \<noteq> []"
    by simp
  have h2: "\<not> truthy (error (resp_old\<lparr>statusCode := None\<rparr>))
      \<and> statusCode (resp_old\<lparr>statusCode := None\<rparr>) = None"
    by (simp add: resp_old_def)
  from t h1 h2 show ?thesis
    by (simp add: select_cookie_resp_old)
qed

text \<open>
  C8. The claim is that the value of the first parsed cookie with the requested key is
  returned, and that without one the error lists the keys present. For \<open>a=1\<close> followed by
  \<open>a=2\<close> the cookie \<open>a\<close> is \<open>1\<close>, and for \<open>a=1\<close>, \<open>b=2\<close> the cookie \<open>c\<close> fails with the
  choices \<open>a, b\<close>. But as soon as one \<open>Set-Cookie\<close> value does not parse, the run ends in a
  \<open>TypeError\<close>: for \<open>a=1\<close> followed by \<open>garbage\<close> the cookie \<open>a\<close> is not returned, and for
  \<open>b=2\<close> followed by \<open>garbage\<close> the missing cookie \<open>a\<close> is not reported with the choices.
\<close>

theorem unparsable_cookie_breaks_selection:
  "fst (run env0 (ctx_cookies [''a=1'', ''a=2'']) (args0\<lparr>arg1 := Some ''a''\<rparr>) (world_chain []))
     = Inr ''1''
   \<and> fst (run env0 (ctx_cookies [''a=1'', ''b=2'']) (args0\<lparr>arg1 := Some ''c''\<rparr>) (world_chain []))
     = Inl (Error ''No c cookie for response. Choices are a, b.'')
   \<and> fst (run env0 (ctx_cookies [''a=1'', ''garbage'']) (args0\<lparr>arg1 := Some ''a''\<rparr>) (world_chain []))
     = Inl TypeError
   \<and> fst (run env0 (ctx_cookies [''b=2'', ''garbage'']) (args0\<lparr>arg1 := Some ''a''\<rparr>) (world_chain []))
     = Inl TypeError"
  by (simp add: run_stored_response select_cookie_def getCookies_resp_with simple_parse_examples)

text \<open>
  C9. The claim is that a request that the store does not know fails with an error that
  names the request id. For the unknown id \<open>req_9\<close> the run is rejected with
  \<open>ReferenceError: reqId is not defined\<close>, raised by the template literal of the intended
  message, and not with \<open>Could not find request req_9\<close>.
\<close>

theorem missing_request_raises_ReferenceError:
  "getById ctx0 ''req_9'' = None
   \<and> run env0 ctx0 (args0\<lparr>arg0 := Some ''req_9''\<rparr>) (world_chain [])
       = (Inl (ReferenceError ''reqId is not defined''), world_chain [])
   \<and> fst (run env0 ctx0 (args0\<lparr>arg0 := Some ''req_9''\<rparr>) (world_chain []))
       \<noteq> Inl (Error ''Could not find request req_9'')"
proof -
  have none: "getById ctx0 ''req_9'' = None"
    by (simp add: ctx0_def)
  have "run env0 ctx0 (args0\<lparr>arg0 := Some ''req_9''\<rparr>) (world_chain [])
       = (Inl (ReferenceError ''reqId is not defined''), world_chain [])"
    by (rule run_not_found [OF _ _ _ none]) (simp_all add: args0_def)
  with none show ?thesis by simp
qed

text \<open>
  C10. For a response without error and with a status code, one \<open>Set-Cookie\<close> header at
  least, and no \<open>Set-Cookie\<close> value that parses: the list of cookies is not empty, so the
  run does not fail with \<open>No cookies set for response\<close>; it fails with a \<open>TypeError\<close>,
  which is none of the errors that \<open>run\<close> builds with \<open>new Error\<close>.
\<close>

theorem unparsable_cookies_raise_TypeError:
  assumes "\<not> truthy (error r)" and "statusCode r = Some n" and "n \<noteq> 0"
    and "\<exists>h \<in> set (headers r). toLowerCase (header_name h) = ''set-cookie''"
    and "\<forall>h \<in> set (headers r). toLowerCase (header_name h) = ''set-cookie'' \<longrightarrow>
           Cookie_parse e (header_value h) = None"
  shows "length (getCookies e r) \<noteq> 0
    \<and> fst (check_response e name (Some r) w) = Inl TypeError
    \<and> fst (check_response e name (Some r) w) \<noteq> Inl (Error ''No cookies set for response'')
    \<and> (\<forall>m. fst (check_response e name (Some r) w) \<noteq> Inl (Error m))"
proof -
  from assms(4) obtain h where h: "h \<in> set (headers r)"
    "toLowerCase (header_name h) = ''set-cookie''"
    by blast
  with assms(5) have "Cookie_parse e (header_value h) = None"
    by blast
  with h have "None \<in> set (getCookies e r)"
    by (force simp: getCookies_def)
  then have "select_cookie e name r = Inl TypeError"
    and "length (getCookies e r) \<noteq> 0"
    by (auto simp: select_cookie_unparsed)
  then show ?thesis
    by (simp add: check_response_ok [OF assms(1-3)])
qed

theorem unparsable_cookies_raise_TypeError_witness:
  "length (getCookies env0 (resp_with [''garbage'', ''garbage''])) = 2
   \<and> fst (check_response env0 ''session'' (Some (resp_with [''garbage'', ''garbage''])) (world_chain []))
       = Inl TypeError
   \<and> fst (run env0 (ctx_cookies [''garbage'', ''garbage'']) (args0\<lparr>arg1 := Some ''session''\<rparr>)
            (world_chain [])) = Inl TypeError"
proof -
  let ?r = "resp_with [''garbage'', ''garbage'']"
  have v: "\<not> truthy (error ?r)" "statusCode ?r = Some 200" "(200::int) \<noteq> 0"
    by (simp_all add: resp_with_def)
  have ex: "\<exists>h \<in> set (headers ?r). toLowerCase (header_name h) = ''set-cookie''"
    by (simp add: resp_with_def set_cookie_def toLowerCase_examples)
  have al: "\<forall>h \<in> set (headers ?r). toLowerCase (header_name h) = ''set-cookie'' \<longrightarrow>
           Cookie_parse env0 (header_value h) = None"
    by (simp add: resp_with_def set_cookie_def env0_def simple_parse_examples)
  note t = unparsable_cookies_raise_TypeError [OF v ex al, of "''session''" "world_chain []"]
  have len: "length (getCookies env0 ?r) = 2"
    by (simp add: getCookies_resp_with)
  have "fst (run env0 (ctx_cookies [''garbage'', ''garbage'']) (args0\<lparr>arg1 := Some ''session''\<rparr>)
            (world_chain [])) = select_cookie env0 ''session'' ?r"
    by (simp add: run_stored_response)
  also have "\<dots> = fst (check_response env0 ''session'' (Some ?r) (world_chain []))"
    by (simp add: check_response_ok [OF v])
  also have "\<dots> = Inl TypeError"
    using t by blast
  finally show ?thesis using t len by blast
qed

end
